theory Spec2Isabelle
  imports Complex_Main "HOL-Library.Sublist"
begin

section \<open>Python values, exceptions and the world outside the script\<close>

text \<open>
  The development embeds \<^verbatim>\<open>src/utils/stl-repair-pymeshlab.py\<close>: the function
  \<^verbatim>\<open>repair_stl\<close>, the import guard at the top of the module and the command line
  block at its end.

  The values the script builds and prints are Python dictionaries, lists, strings,
  integers and booleans. A dictionary is an association list, since Python keeps the
  insertion order and \<^verbatim>\<open>json.dumps\<close> prints in that order. Strings are HOL strings
  (code points below 256). Python integers are unbounded: \<^typ>\<open>int\<close>.
\<close>

datatype pyval =
    PNone
  | PBool bool
  | PInt int
  | PStr string
  | PList "pyval list"
  | PDict "(string \<times> pyval) list"

type_synonym path = string

text \<open>
  An exception object: the name of its class (\<^verbatim>\<open>type(e).__name__\<close>), the names of the
  classes it inherits from, and its message (\<^verbatim>\<open>str(e)\<close>).
\<close>

record pyexn =
  exn_class :: string
  exn_bases :: "string list"
  exn_str :: string

definition isinstance :: "pyexn \<Rightarrow> string \<Rightarrow> bool" where
  "isinstance e c = (c \<in> set (exn_class e # exn_bases e))"

text \<open>
  The calls the script makes on PyMeshLab, one constructor per method, keyword
  arguments as fields. A float literal of the source is kept as the decimal fraction
  it is written as.
\<close>

datatype engine_call =
    MeshSet
  | Load_new_mesh path
  | Current_mesh
  | Vertex_number
  | Face_number
  | Meshing_remove_duplicate_faces
  | Meshing_remove_duplicate_vertices
  | Meshing_remove_unreferenced_vertices
  | Meshing_repair_non_manifold_edges (edge_method: int)
  | Meshing_repair_non_manifold_vertices (vertdispratio: rat)
  | Meshing_close_holes (maxholesize: int)
  | Meshing_re_orient_faces_coherently
  | Meshing_snap_mismatched_borders (threshold_perc: rat)
  | Save_current_mesh path (binary: bool) (save_vertex_normal: bool)

text \<open>Every call that leaves the script: the two \<^verbatim>\<open>os.path\<close> functions and the engine.\<close>

datatype ext_call =
    Os_path_exists path
  | Os_path_getsize path
  | Pymeshlab engine_call

record event =
  ev_call :: ext_call
  ev_raised :: "pyexn option"

text \<open>
  What \<^verbatim>\<open>sys.stdout\<close> or \<^verbatim>\<open>sys.stderr\<close> is when a \<^verbatim>\<open>print\<close> reaches it:
  \<^verbatim>\<open>None\<close> (the descriptor was closed when the interpreter started); a stream that
  takes the text; a stream whose write raises (a full device, a broken pipe); or a
  stream that buffers the text and fails when the interpreter flushes it at exit.
\<close>

datatype stream_status = Is_None | Writes | Write_raises pyexn | Buffers_then_fails

text \<open>
  The file system, the mesh library and the two streams are not code of the script.
  They are a parameter: a state \<open>'x\<close> of everything outside the script, and the ways
  the script reaches it. \<^verbatim>\<open>os.path.exists\<close> answers without raising;
  \<^verbatim>\<open>os.path.getsize\<close> returns a size or raises; an engine call returns a number
  (read only after \<^verbatim>\<open>vertex_number\<close> and \<^verbatim>\<open>face_number\<close>) or raises, and may
  change the outside state either way; the status of each stream is read at every
  \<^verbatim>\<open>print\<close>.
\<close>

record 'x system =
  os_path_exists :: "path \<Rightarrow> 'x \<Rightarrow> bool"
  os_path_getsize :: "path \<Rightarrow> 'x \<Rightarrow> pyexn + int"
  pymeshlab :: "engine_call \<Rightarrow> 'x \<Rightarrow> (pyexn + int) \<times> 'x"
  sys_stdout :: "'x \<Rightarrow> stream_status"
  sys_stderr :: "'x \<Rightarrow> stream_status"

text \<open>
  The world of one run: the outside state, the history of calls made so far (with the
  exception each raised, if any), the lines the two streams have taken, and whether
  the flush at the exit of the interpreter is going to fail.
\<close>

record 'x world =
  outside :: 'x
  history :: "event list"
  stderr :: "string list"
  stdout :: "string list"
  flush_fails :: bool

text \<open>The local variables of \<^verbatim>\<open>repair_stl\<close>, with the world they run in.\<close>

record stats =
  vertices :: int
  faces :: int

record 'x frame =
  world :: "'x world"
  original_size :: int
  initial_stats :: stats
  repair_steps :: "string list"
  final_stats :: stats
  repaired_size :: int

section \<open>Statements and expressions\<close>

text \<open>
  A statement ends normally, returns a value from the function, or raises. An
  expression yields a value or raises. Both may change the frame, and the changes
  made before an exception stay.
\<close>

datatype outcome = Next | Return pyval | Raise pyexn

type_synonym 'x stmt = "'x frame \<Rightarrow> outcome \<times> 'x frame"

type_synonym ('x, 'a) expr = "'x frame \<Rightarrow> (pyexn + 'a) \<times> 'x frame"

fun seq :: "'x stmt list \<Rightarrow> 'x stmt" where
  "seq [] s = (Next, s)"
| "seq (c # cs) s =
     (case c s of
        (Next, s') \<Rightarrow> seq cs s'
      | (Return v, s') \<Rightarrow> (Return v, s')
      | (Raise e, s') \<Rightarrow> (Raise e, s'))"

definition log_event :: "ext_call \<Rightarrow> pyexn option \<Rightarrow> 'x frame \<Rightarrow> 'x frame" where
  "log_event c r s =
     s\<lparr>world := (world s)\<lparr>history := history (world s) @ [\<lparr>ev_call = c, ev_raised = r\<rparr>]\<rparr>\<rparr>"

definition set_outside :: "'x \<Rightarrow> 'x frame \<Rightarrow> 'x frame" where
  "set_outside x s = s\<lparr>world := (world s)\<lparr>outside := x\<rparr>\<rparr>"

definition exists_expr :: "'x system \<Rightarrow> path \<Rightarrow> ('x, bool) expr" where
  "exists_expr S p s =
     (Inr (os_path_exists S p (outside (world s))), log_event (Os_path_exists p) None s)"

definition getsize_expr :: "'x system \<Rightarrow> path \<Rightarrow> ('x, int) expr" where
  "getsize_expr S p s =
     (case os_path_getsize S p (outside (world s)) of
        Inl e \<Rightarrow> (Inl e, log_event (Os_path_getsize p) (Some e) s)
      | Inr n \<Rightarrow> (Inr n, log_event (Os_path_getsize p) None s))"

definition engine_expr :: "'x system \<Rightarrow> engine_call \<Rightarrow> ('x, int) expr" where
  "engine_expr S c s =
     (case pymeshlab S c (outside (world s)) of
        (Inl e, x) \<Rightarrow> (Inl e, log_event (Pymeshlab c) (Some e) (set_outside x s))
      | (Inr n, x) \<Rightarrow> (Inr n, log_event (Pymeshlab c) None (set_outside x s)))"

text \<open>
  The dictionary display
  \<^verbatim>\<open>{"vertices": ms.current_mesh().vertex_number(), "faces": ms.current_mesh().face_number()}\<close>,
  evaluated left to right.
\<close>

definition stats_expr :: "'x system \<Rightarrow> ('x, stats) expr" where
  "stats_expr S s0 =
     (case engine_expr S Current_mesh s0 of
        (Inl e, s1) \<Rightarrow> (Inl e, s1)
      | (Inr _, s1) \<Rightarrow>
     (case engine_expr S Vertex_number s1 of
        (Inl e, s2) \<Rightarrow> (Inl e, s2)
      | (Inr v, s2) \<Rightarrow>
     (case engine_expr S Current_mesh s2 of
        (Inl e, s3) \<Rightarrow> (Inl e, s3)
      | (Inr _, s3) \<Rightarrow>
     (case engine_expr S Face_number s3 of
        (Inl e, s4) \<Rightarrow> (Inl e, s4)
      | (Inr f, s4) \<Rightarrow> (Inr \<lparr>vertices = v, faces = f\<rparr>, s4)))))"

definition assign :: "('x, 'a) expr \<Rightarrow> ('a \<Rightarrow> 'x frame \<Rightarrow> 'x frame) \<Rightarrow> 'x stmt" where
  "assign rhs store s =
     (case rhs s of (Inl e, s') \<Rightarrow> (Raise e, s') | (Inr v, s') \<Rightarrow> (Next, store v s'))"

definition expr_stmt :: "('x, 'a) expr \<Rightarrow> 'x stmt" where
  "expr_stmt ex s =
     (case ex s of (Inl e, s') \<Rightarrow> (Raise e, s') | (Inr _, s') \<Rightarrow> (Next, s'))"

definition if_not :: "('x, bool) expr \<Rightarrow> 'x stmt \<Rightarrow> 'x stmt" where
  "if_not cond body s =
     (case cond s of
        (Inl e, s') \<Rightarrow> (Raise e, s')
      | (Inr b, s') \<Rightarrow> if \<not> b then body s' else (Next, s'))"

definition if_flag :: "bool \<Rightarrow> 'x stmt \<Rightarrow> 'x stmt" where
  "if_flag b body s = (if b then body s else (Next, s))"

definition return_value :: "('x frame \<Rightarrow> pyval) \<Rightarrow> 'x stmt" where
  "return_value v s = (Return (v s), s)"

text \<open>
  \<^verbatim>\<open>print(line)\<close>: when \<^verbatim>\<open>sys.stdout\<close> is \<^verbatim>\<open>None\<close> nothing happens; a write that
  raises raises out of \<^verbatim>\<open>print\<close>; text buffered on a stream that cannot be flushed
  is lost and makes the flush at exit fail.
\<close>

definition print_on_stdout :: "'x system \<Rightarrow> string \<Rightarrow> 'x world \<Rightarrow> pyexn option \<times> 'x world" where
  "print_on_stdout S line w =
     (case sys_stdout S (outside w) of
        Is_None \<Rightarrow> (None, w)
      | Writes \<Rightarrow> (None, w\<lparr>stdout := stdout w @ [line]\<rparr>)
      | Write_raises e \<Rightarrow> (Some e, w)
      | Buffers_then_fails \<Rightarrow> (None, w\<lparr>flush_fails := True\<rparr>))"

text \<open>
  \<^verbatim>\<open>print(line, file=sys.stderr)\<close>: when \<^verbatim>\<open>sys.stderr\<close> is \<^verbatim>\<open>None\<close>, \<^verbatim>\<open>print\<close>
  falls back to \<^verbatim>\<open>sys.stdout\<close>.
\<close>

definition print_on_stderr :: "'x system \<Rightarrow> string \<Rightarrow> 'x world \<Rightarrow> pyexn option \<times> 'x world" where
  "print_on_stderr S line w =
     (case sys_stderr S (outside w) of
        Is_None \<Rightarrow> print_on_stdout S line w
      | Writes \<Rightarrow> (None, w\<lparr>stderr := stderr w @ [line]\<rparr>)
      | Write_raises e \<Rightarrow> (Some e, w)
      | Buffers_then_fails \<Rightarrow> (None, w\<lparr>flush_fails := True\<rparr>))"

definition print_stderr :: "'x system \<Rightarrow> ('x frame \<Rightarrow> string) \<Rightarrow> 'x stmt" where
  "print_stderr S msg s =
     (case print_on_stderr S (msg s) (world s) of
        (None, w') \<Rightarrow> (Next, s\<lparr>world := w'\<rparr>)
      | (Some e, w') \<Rightarrow> (Raise e, s\<lparr>world := w'\<rparr>))"

definition append_step :: "string \<Rightarrow> 'x stmt" where
  "append_step name s = (Next, s\<lparr>repair_steps := repair_steps s @ [name]\<rparr>)"

text \<open>\<^verbatim>\<open>try: body except Exception as e: handler\<close>\<close>

definition try_except_Exception :: "'x stmt \<Rightarrow> (pyexn \<Rightarrow> 'x stmt) \<Rightarrow> 'x stmt" where
  "try_except_Exception body handler s =
     (case body s of
        (Raise e, s') \<Rightarrow> if isinstance e ''Exception'' then handler e s' else (Raise e, s')
      | (Next, s') \<Rightarrow> (Next, s')
      | (Return v, s') \<Rightarrow> (Return v, s'))"

section \<open>Formatting integers\<close>

definition digit_char :: "nat \<Rightarrow> char" where
  "digit_char d = (''0123456789'') ! (d mod 10)"

fun str_nat :: "nat \<Rightarrow> string" where
  "str_nat n = (if n < 10 then [digit_char n] else str_nat (n div 10) @ [digit_char (n mod 10)])"

declare str_nat.simps [simp del]

definition str_int :: "int \<Rightarrow> string" where
  "str_int i = (if i < 0 then CHR ''-'' # str_nat (nat (- i)) else str_nat (nat i))"

section \<open>The repair pipeline\<close>

definition stats_dict :: "stats \<Rightarrow> pyval" where
  "stats_dict st = PDict [(''vertices'', PInt (vertices st)), (''faces'', PInt (faces st))]"

definition stats_message :: "string \<Rightarrow> stats \<Rightarrow> string" where
  "stats_message which st =
     ''[PYMESHLAB] '' @ which @ '' mesh: '' @ str_int (vertices st) @ '' vertices, ''
       @ str_int (faces st) @ '' faces''"

text \<open>The dictionary returned at lines 46 to 49.\<close>

definition input_not_found :: "path \<Rightarrow> pyval" where
  "input_not_found input_path =
     PDict [(''success'', PBool False),
            (''error'', PStr (''Input file not found: '' @ input_path))]"

text \<open>The dictionary returned at lines 141 to 152.\<close>

definition success_dict :: "path \<Rightarrow> 'x frame \<Rightarrow> pyval" where
  "success_dict output_path s =
     PDict [(''success'', PBool True),
            (''outputPath'', PStr output_path),
            (''originalSize'', PInt (original_size s)),
            (''repairedSize'', PInt (repaired_size s)),
            (''sizeDifference'', PInt (repaired_size s - original_size s)),
            (''initialStats'', stats_dict (initial_stats s)),
            (''finalStats'', stats_dict (final_stats s)),
            (''repairSteps'', PList (map PStr (repair_steps s))),
            (''verticesChanged'', PInt (vertices (final_stats s) - vertices (initial_stats s))),
            (''facesChanged'', PInt (faces (final_stats s) - faces (initial_stats s)))]"

text \<open>The dictionary returned by the handler, lines 155 to 159.\<close>

definition exception_dict :: "pyexn \<Rightarrow> pyval" where
  "exception_dict e =
     PDict [(''success'', PBool False),
            (''error'', PStr (exn_str e)),
            (''errorType'', PStr (exn_class e))]"

text \<open>The body of the \<^verbatim>\<open>try\<close>, lines 44 to 152, statement by statement.\<close>

definition repair_stl_try :: "'x system \<Rightarrow> path \<Rightarrow> path \<Rightarrow> bool \<Rightarrow> 'x stmt" where
  "repair_stl_try S input_path output_path verbose = seq [
     if_not (exists_expr S input_path)
       (return_value (\<lambda>s. input_not_found input_path)),
     assign (getsize_expr S input_path) (\<lambda>n s. s\<lparr>original_size := n\<rparr>),
     if_flag verbose
       (print_stderr S (\<lambda>s. ''[PYMESHLAB] Loading mesh from: '' @ input_path)),
     expr_stmt (engine_expr S MeshSet),
     expr_stmt (engine_expr S (Load_new_mesh input_path)),
     assign (stats_expr S) (\<lambda>st s. s\<lparr>initial_stats := st\<rparr>),
     if_flag verbose
       (print_stderr S (\<lambda>s. stats_message ''Initial'' (initial_stats s))),
     assign (\<lambda>s. (Inr [], s)) (\<lambda>xs s. s\<lparr>repair_steps := xs\<rparr>),
     if_flag verbose
       (print_stderr S (\<lambda>s. ''[PYMESHLAB] Step 1: Removing duplicate faces...'')),
     expr_stmt (engine_expr S Meshing_remove_duplicate_faces),
     append_step ''remove_duplicate_faces'',
     if_flag verbose
       (print_stderr S (\<lambda>s. ''[PYMESHLAB] Step 2: Removing duplicate vertices...'')),
     expr_stmt (engine_expr S Meshing_remove_duplicate_vertices),
     append_step ''remove_duplicate_vertices'',
     if_flag verbose
       (print_stderr S (\<lambda>s. ''[PYMESHLAB] Step 3: Removing unreferenced vertices...'')),
     expr_stmt (engine_expr S Meshing_remove_unreferenced_vertices),
     append_step ''remove_unreferenced_vertices'',
     if_flag verbose
       (print_stderr S (\<lambda>s. ''[PYMESHLAB] Step 4: Repairing non-manifold edges...'')),
     expr_stmt (engine_expr S (Meshing_repair_non_manifold_edges 0)),
     append_step ''repair_non_manifold_edges'',
     if_flag verbose
       (print_stderr S (\<lambda>s. ''[PYMESHLAB] Step 5: Repairing non-manifold vertices...'')),
     expr_stmt (engine_expr S (Meshing_repair_non_manifold_vertices 0)),
     append_step ''repair_non_manifold_vertices'',
     if_flag verbose
       (print_stderr S (\<lambda>s. ''[PYMESHLAB] Step 6: Closing holes...'')),
     expr_stmt (engine_expr S (Meshing_close_holes 30)),
     append_step ''close_holes'',
     if_flag verbose
       (print_stderr S (\<lambda>s. ''[PYMESHLAB] Step 7: Re-orienting faces...'')),
     expr_stmt (engine_expr S Meshing_re_orient_faces_coherently),
     append_step ''reorient_faces'',
     if_flag verbose
       (print_stderr S (\<lambda>s. ''[PYMESHLAB] Step 8: Snapping nearby vertices...'')),
     expr_stmt (engine_expr S (Meshing_snap_mismatched_borders (1 / 100))),
     append_step ''snap_borders'',
     assign (stats_expr S) (\<lambda>st s. s\<lparr>final_stats := st\<rparr>),
     if_flag verbose
       (print_stderr S (\<lambda>s. stats_message ''Final'' (final_stats s))),
     if_flag verbose
       (print_stderr S (\<lambda>s. ''[PYMESHLAB] Saving repaired mesh to: '' @ output_path)),
     expr_stmt (engine_expr S (Save_current_mesh output_path True False)),
     assign (getsize_expr S output_path) (\<lambda>n s. s\<lparr>repaired_size := n\<rparr>),
     return_value (success_dict output_path)]"

definition repair_stl_body :: "'x system \<Rightarrow> path \<Rightarrow> path \<Rightarrow> bool \<Rightarrow> 'x stmt" where
  "repair_stl_body S input_path output_path verbose =
     try_except_Exception (repair_stl_try S input_path output_path verbose)
       (\<lambda>e. return_value (\<lambda>s. exception_dict e))"

text \<open>
  A call of the function: fresh local variables, and at the end either the value
  returned or the exception that left the function. A body that ends without
  \<^verbatim>\<open>return\<close> returns \<^verbatim>\<open>None\<close>.
\<close>

definition enter :: "'x world \<Rightarrow> 'x frame" where
  "enter w = \<lparr>world = w, original_size = 0,
              initial_stats = \<lparr>vertices = 0, faces = 0\<rparr>, repair_steps = [],
              final_stats = \<lparr>vertices = 0, faces = 0\<rparr>, repaired_size = 0\<rparr>"

definition repair_stl ::
  "'x system \<Rightarrow> path \<Rightarrow> path \<Rightarrow> bool \<Rightarrow> 'x world \<Rightarrow> (pyexn + pyval) \<times> 'x world" where
  "repair_stl S input_path output_path verbose w =
     (case repair_stl_body S input_path output_path verbose (enter w) of
        (Return v, s) \<Rightarrow> (Inr v, world s)
      | (Raise e, s) \<Rightarrow> (Inl e, world s)
      | (Next, s) \<Rightarrow> (Inr PNone, world s))"

section \<open>The command line\<close>

subsection \<open>\<^verbatim>\<open>json.dumps\<close>\<close>








subsection \<open>Subscription and truth value\<close>

definition key_error :: "string \<Rightarrow> pyexn" where
  "key_error k =
     \<lparr>exn_class = ''KeyError'',
      exn_bases = [''LookupError'', ''Exception'', ''BaseException'', ''object''],
      exn_str = [CHR 0x27] @ k @ [CHR 0x27]\<rparr>"

definition type_error :: "string \<Rightarrow> pyexn" where
  "type_error msg =
     \<lparr>exn_class = ''TypeError'',
      exn_bases = [''Exception'', ''BaseException'', ''object''],
      exn_str = msg\<rparr>"

definition quoted :: "string \<Rightarrow> string" where
  "quoted s = [CHR 0x27] @ s @ [CHR 0x27]"

text \<open>\<^verbatim>\<open>v[k]\<close> for a string key \<open>k\<close>: only a dictionary holding the key answers.\<close>

fun getitem :: "pyval \<Rightarrow> string \<Rightarrow> pyexn + pyval" where
  "getitem (PDict kvs) k = (case map_of kvs k of None \<Rightarrow> Inl (key_error k) | Some v \<Rightarrow> Inr v)"
| "getitem PNone k = Inl (type_error (quoted ''NoneType'' @ '' object is not subscriptable''))"
| "getitem (PBool b) k = Inl (type_error (quoted ''bool'' @ '' object is not subscriptable''))"
| "getitem (PInt i) k = Inl (type_error (quoted ''int'' @ '' object is not subscriptable''))"
| "getitem (PStr s) k = Inl (type_error ''string indices must be integers'')"
| "getitem (PList xs) k = Inl (type_error ''list indices must be integers or slices, not str'')"


subsection \<open>The module as a script\<close>







section \<open>What a run is expected to do\<close>

text \<open>
  The calls of a complete run, in the order of the source, and the names of the eight
  repair steps in the order the specification gives them.
\<close>

definition ok :: "ext_call \<Rightarrow> event" where
  "ok c = \<lparr>ev_call = c, ev_raised = None\<rparr>"

definition failed :: "ext_call \<Rightarrow> pyexn \<Rightarrow> event" where
  "failed c e = \<lparr>ev_call = c, ev_raised = Some e\<rparr>"

definition mesh_stats_calls :: "ext_call list" where
  "mesh_stats_calls = [Pymeshlab Current_mesh, Pymeshlab Vertex_number,
                       Pymeshlab Current_mesh, Pymeshlab Face_number]"

definition repair_step_calls :: "engine_call list" where
  "repair_step_calls =
     [Meshing_remove_duplicate_faces,
      Meshing_remove_duplicate_vertices,
      Meshing_remove_unreferenced_vertices,
      Meshing_repair_non_manifold_edges 0,
      Meshing_repair_non_manifold_vertices 0,
      Meshing_close_holes 30,
      Meshing_re_orient_faces_coherently,
      Meshing_snap_mismatched_borders (1 / 100)]"

definition expected_calls :: "path \<Rightarrow> path \<Rightarrow> ext_call list" where
  "expected_calls input_path output_path =
     [Os_path_exists input_path, Os_path_getsize input_path,
      Pymeshlab MeshSet, Pymeshlab (Load_new_mesh input_path)]
     @ mesh_stats_calls
     @ map Pymeshlab repair_step_calls
     @ mesh_stats_calls
     @ [Pymeshlab (Save_current_mesh output_path True False), Os_path_getsize output_path]"

definition step_names :: "string list" where
  "step_names =
     [''remove_duplicate_faces'', ''remove_duplicate_vertices'',
      ''remove_unreferenced_vertices'', ''repair_non_manifold_edges'',
      ''repair_non_manifold_vertices'', ''close_holes'', ''reorient_faces'',
      ''snap_borders'']"

text \<open>The events a run has added to the history it started with.\<close>

definition new_events :: "'x world \<Rightarrow> 'x world \<Rightarrow> event list" where
  "new_events w w' = drop (length (history w)) (history w')"

definition is_repair_step :: "ext_call \<Rightarrow> bool" where
  "is_repair_step c = (c \<in> set (map Pymeshlab repair_step_calls))"

text \<open>
  A result is a Success when its \<^verbatim>\<open>success\<close> entry is \<^verbatim>\<open>True\<close>, a Failure when it
  is \<^verbatim>\<open>False\<close>.
\<close>

definition is_success :: "pyval \<Rightarrow> bool" where
  "is_success v = (getitem v ''success'' = Inr (PBool True))"

definition is_failure :: "pyval \<Rightarrow> bool" where
  "is_failure v = (getitem v ''success'' = Inr (PBool False))"

text \<open>
  The specification gives a Failure an \<^verbatim>\<open>errorKind\<close>. The only entry of a result
  that names a category of error is \<^verbatim>\<open>errorType\<close>: the kind of a result is that
  entry, if it has one.
\<close>

definition spec_error_kind :: "pyval \<Rightarrow> string option" where
  "spec_error_kind v =
     (case getitem v ''errorType'' of Inr (PStr k) \<Rightarrow> Some k | _ \<Rightarrow> None)"

text \<open>
  Assertions between the statements of the body: \<open>k\<close> calls of the expected sequence
  have been made and none has raised, \<open>m\<close> step names have been appended.
\<close>

definition reached :: "'x world \<Rightarrow> ext_call list \<Rightarrow> nat \<Rightarrow> nat \<Rightarrow> 'x frame \<Rightarrow> bool" where
  "reached w0 cs k m s \<longleftrightarrow>
     history (world s) = history w0 @ map ok (take k cs) \<and>
     repair_steps s = take m step_names"

definition post :: "'x world \<Rightarrow> path \<Rightarrow> path \<Rightarrow> outcome \<Rightarrow> 'x frame \<Rightarrow> bool" where
  "post w0 input_path output_path out s \<longleftrightarrow>
     (case out of
        Next \<Rightarrow> False
      | Return v \<Rightarrow>
          (v = input_not_found input_path
             \<and> history (world s) = history w0 @ [ok (Os_path_exists input_path)])
          \<or> (v = success_dict output_path s \<and> repair_steps s = step_names
              \<and> history (world s) = history w0 @ map ok (expected_calls input_path output_path))
      | Raise e \<Rightarrow>
          (\<exists>k < length (expected_calls input_path output_path).
              history (world s) =
                history w0 @ map ok (take k (expected_calls input_path output_path))
                  @ [failed (expected_calls input_path output_path ! k) e])
          \<or> (\<exists>k < length (expected_calls input_path output_path).
              history (world s) =
                history w0 @ map ok (take k (expected_calls input_path output_path))))"

definition triple ::
  "('x frame \<Rightarrow> bool) \<Rightarrow> 'x stmt \<Rightarrow> ('x frame \<Rightarrow> bool) \<Rightarrow> (outcome \<Rightarrow> 'x frame \<Rightarrow> bool) \<Rightarrow> bool" where
  "triple P c Q X \<longleftrightarrow>
     (\<forall>s. P s \<longrightarrow> (case c s of (Next, s') \<Rightarrow> Q s' | (Return v, s') \<Rightarrow> X (Return v) s'
                              | (Raise e, s') \<Rightarrow> X (Raise e) s'))"

text \<open>
  Two runs that differ in the \<^verbatim>\<open>verbose\<close> flag are compared with the diagnostic
  stream erased.
\<close>

definition mute :: "'x frame \<Rightarrow> 'x frame" where
  "mute s = s\<lparr>world := (world s)\<lparr>stderr := []\<rparr>\<rparr>"






section \<open>A small system to run the script on\<close>

text \<open>
  An instance of the outside world, for running the model on concrete inputs: files
  with a size and, when they hold a mesh, its counts; a mesh library that keeps one
  current mesh, removes 28 duplicate vertices, closes holes with 2 new faces and writes
  a binary STL file of 84 bytes plus 50 bytes for each face.
\<close>

record fake_file =
  file_size :: int
  file_mesh :: "stats option"

record fake_outside =
  fake_files :: "(path \<times> fake_file) list"
  fake_current :: "stats option"

definition pymeshlab_exception :: "string \<Rightarrow> pyexn" where
  "pymeshlab_exception msg =
     \<lparr>exn_class = ''PyMeshLabException'',
      exn_bases = [''Exception'', ''BaseException'', ''object''],
      exn_str = msg\<rparr>"

definition file_not_found_error :: "path \<Rightarrow> pyexn" where
  "file_not_found_error p =
     \<lparr>exn_class = ''FileNotFoundError'',
      exn_bases = [''OSError'', ''Exception'', ''BaseException'', ''object''],
      exn_str = ''[Errno 2] No such file or directory: '' @ quoted p\<rparr>"

definition keyboard_interrupt :: pyexn where
  "keyboard_interrupt =
     \<lparr>exn_class = ''KeyboardInterrupt'',
      exn_bases = [''BaseException'', ''object''],
      exn_str = []\<rparr>"


definition on_current :: "(stats \<Rightarrow> stats) \<Rightarrow> fake_outside \<Rightarrow> (pyexn + int) \<times> fake_outside" where
  "on_current f x =
     (case fake_current x of
        None \<Rightarrow> (Inl (pymeshlab_exception ''MeshSet has no current mesh''), x)
      | Some st \<Rightarrow> (Inr 0, x\<lparr>fake_current := Some (f st)\<rparr>))"

fun fake_pymeshlab :: "engine_call \<Rightarrow> fake_outside \<Rightarrow> (pyexn + int) \<times> fake_outside" where
  "fake_pymeshlab MeshSet x = (Inr 0, x\<lparr>fake_current := None\<rparr>)"
| "fake_pymeshlab (Load_new_mesh p) x =
     (case map_of (fake_files x) p of
        None \<Rightarrow> (Inl (pymeshlab_exception (''File does not exist: '' @ p)), x)
      | Some f \<Rightarrow>
          (case file_mesh f of
             None \<Rightarrow> (Inl (pymeshlab_exception (''Unknown format for load: '' @ p)), x)
           | Some st \<Rightarrow> (Inr 0, x\<lparr>fake_current := Some st\<rparr>)))"
| "fake_pymeshlab Current_mesh x = on_current (\<lambda>st. st) x"
| "fake_pymeshlab Vertex_number x =
     (case fake_current x of
        None \<Rightarrow> (Inl (pymeshlab_exception ''MeshSet has no current mesh''), x)
      | Some st \<Rightarrow> (Inr (vertices st), x))"
| "fake_pymeshlab Face_number x =
     (case fake_current x of
        None \<Rightarrow> (Inl (pymeshlab_exception ''MeshSet has no current mesh''), x)
      | Some st \<Rightarrow> (Inr (faces st), x))"
| "fake_pymeshlab Meshing_remove_duplicate_faces x = on_current (\<lambda>st. st) x"
| "fake_pymeshlab Meshing_remove_duplicate_vertices x =
     on_current (\<lambda>st. st\<lparr>vertices := vertices st - 28\<rparr>) x"
| "fake_pymeshlab Meshing_remove_unreferenced_vertices x = on_current (\<lambda>st. st) x"
| "fake_pymeshlab (Meshing_repair_non_manifold_edges n) x = on_current (\<lambda>st. st) x"
| "fake_pymeshlab (Meshing_repair_non_manifold_vertices r) x = on_current (\<lambda>st. st) x"
| "fake_pymeshlab (Meshing_close_holes n) x =
     on_current (\<lambda>st. st\<lparr>faces := faces st + 2\<rparr>) x"
| "fake_pymeshlab Meshing_re_orient_faces_coherently x = on_current (\<lambda>st. st) x"
| "fake_pymeshlab (Meshing_snap_mismatched_borders t) x = on_current (\<lambda>st. st) x"
| "fake_pymeshlab (Save_current_mesh p b n) x =
     (case fake_current x of
        None \<Rightarrow> (Inl (pymeshlab_exception ''MeshSet has no current mesh''), x)
      | Some st \<Rightarrow>
          (Inr 0, x\<lparr>fake_files :=
             (p, \<lparr>file_size = 84 + 50 * faces st, file_mesh = Some st\<rparr>) # fake_files x\<rparr>))"

definition fake_system :: "fake_outside system" where
  "fake_system =
     \<lparr>os_path_exists = (\<lambda>p x. map_of (fake_files x) p \<noteq> None),
      os_path_getsize = (\<lambda>p x. case map_of (fake_files x) p of
                                  None \<Rightarrow> Inl (file_not_found_error p)
                                | Some f \<Rightarrow> Inr (file_size f)),
      pymeshlab = fake_pymeshlab,
      sys_stdout = (\<lambda>x. Writes),
      sys_stderr = (\<lambda>x. Writes)\<rparr>"

text \<open>A cube as a binary STL file of 12 faces, and a file that is not a mesh.\<close>

definition fake_world :: "fake_outside world" where
  "fake_world =
     \<lparr>outside =
        \<lparr>fake_files =
           [(''cube.stl'', \<lparr>file_size = 684, file_mesh = Some \<lparr>vertices = 36, faces = 12\<rparr>\<rparr>),
            (''notes.txt'', \<lparr>file_size = 5, file_mesh = None\<rparr>)],
         fake_current = None\<rparr>,
      history = [], stderr = [], stdout = [], flush_fails = False\<rparr>"

text \<open>A system in which the user interrupts the first call of the library.\<close>

definition interrupted_system :: "fake_outside system" where
  "interrupted_system = fake_system\<lparr>pymeshlab := (\<lambda>c x. (Inl keyboard_interrupt, x))\<rparr>"




text \<open>The result of repairing the cube, as the fake library repairs it.\<close>

definition cube_result :: pyval where
  "cube_result =
     PDict [(''success'', PBool True),
            (''outputPath'', PStr ''out.stl''),
            (''originalSize'', PInt 684),
            (''repairedSize'', PInt 784),
            (''sizeDifference'', PInt 100),
            (''initialStats'', PDict [(''vertices'', PInt 36), (''faces'', PInt 12)]),
            (''finalStats'', PDict [(''vertices'', PInt 8), (''faces'', PInt 14)]),
            (''repairSteps'', PList (map PStr step_names)),
            (''verticesChanged'', PInt (- 28)),
            (''facesChanged'', PInt 2)]"

definition cube_world :: "fake_outside world" where
  "cube_world =
     fake_world
       \<lparr>outside :=
          \<lparr>fake_files =
             (''out.stl'', \<lparr>file_size = 784, file_mesh = Some \<lparr>vertices = 8, faces = 14\<rparr>\<rparr>)
               # fake_files (outside fake_world),
           fake_current = Some \<lparr>vertices = 8, faces = 14\<rparr>\<rparr>,
        history := map ok (expected_calls ''cube.stl'' ''out.stl'')\<rparr>"

section \<open>Properties the claims are stated with\<close>

text \<open>The kind of what a call of \<^verbatim>\<open>repair_stl\<close> gives back, if it has one.\<close>

definition result_kind :: "pyexn + pyval \<Rightarrow> string option" where
  "result_kind r = (case r of Inl e \<Rightarrow> None | Inr v \<Rightarrow> spec_error_kind v)"

fun is_save :: "ext_call \<Rightarrow> bool" where
  "is_save (Pymeshlab (Save_current_mesh p b n)) = True"
| "is_save c = False"

fun dict_keys :: "pyval \<Rightarrow> string list" where
  "dict_keys (PDict kvs) = map fst kvs"
| "dict_keys v = []"

section \<open>Reasoning about the statements of the body\<close>

lemma triple_seq_Nil: "(\<And>s. P s \<Longrightarrow> Q s) \<Longrightarrow> triple P (seq []) Q X"
  by (simp add: triple_def)

lemma triple_seq_Cons:
  "triple P c M X \<Longrightarrow> triple M (seq cs) Q X \<Longrightarrow> triple P (seq (c # cs)) Q X"
  unfolding triple_def
  by (auto split: prod.splits outcome.splits)

lemma take_Suc_ok:
  "k < length cs \<Longrightarrow> map ok (take (Suc k) cs) = map ok (take k cs) @ [ok (cs ! k)]"
  by (simp add: take_Suc_conv_app_nth)

lemma engine_expr_reached:
  assumes "reached w0 (expected_calls inp outp) k m s"
    and "k < length (expected_calls inp outp)"
    and "expected_calls inp outp ! k = Pymeshlab c"
  shows "case engine_expr S c s of
           (Inl e, s') \<Rightarrow> post w0 inp outp (Raise e) s'
         | (Inr n, s') \<Rightarrow> reached w0 (expected_calls inp outp) (Suc k) m s'"
proof (cases "pymeshlab S c (outside (world s))")
  case (Pair r x)
  show ?thesis
  proof (cases r)
    case (Inl e)
    with Pair assms show ?thesis
      by (auto simp: engine_expr_def reached_def post_def log_event_def set_outside_def
            ok_def failed_def)
  next
    case (Inr n)
    with Pair assms show ?thesis
      by (simp add: engine_expr_def reached_def log_event_def set_outside_def take_Suc_ok ok_def)
  qed
qed

lemma getsize_expr_reached:
  assumes "reached w0 (expected_calls inp outp) k m s"
    and "k < length (expected_calls inp outp)"
    and "expected_calls inp outp ! k = Os_path_getsize p"
  shows "case getsize_expr S p s of
           (Inl e, s') \<Rightarrow> post w0 inp outp (Raise e) s'
         | (Inr n, s') \<Rightarrow> reached w0 (expected_calls inp outp) (Suc k) m s'"
proof (cases "os_path_getsize S p (outside (world s))")
  case (Inl e)
  with assms show ?thesis
    by (auto simp: getsize_expr_def reached_def post_def log_event_def ok_def failed_def)
next
  case (Inr n)
  with assms show ?thesis
    by (simp add: getsize_expr_def reached_def log_event_def take_Suc_ok ok_def)
qed

lemma triple_assign:
  assumes "\<And>s. P s \<Longrightarrow>
             (case rhs s of (Inl e, s') \<Rightarrow> X (Raise e) s' | (Inr v, s') \<Rightarrow> Q (store v s'))"
  shows "triple P (assign rhs store) Q X"
  unfolding triple_def assign_def
proof (intro allI impI)
  fix s assume "P s"
  from assms [OF this]
  show "case case rhs s of (Inl e, s') \<Rightarrow> (Raise e, s') | (Inr v, s') \<Rightarrow> (Next, store v s') of
          (Next, s') \<Rightarrow> Q s' | (Return v, s') \<Rightarrow> X (Return v) s'
        | (Raise e, s') \<Rightarrow> X (Raise e) s'"
    by (cases "rhs s"; cases "fst (rhs s)") auto
qed

lemma triple_call:
  assumes "k < length (expected_calls inp outp)"
    and "expected_calls inp outp ! k = Pymeshlab c"
  shows "triple (reached w0 (expected_calls inp outp) k m) (expr_stmt (engine_expr S c))
           (reached w0 (expected_calls inp outp) (Suc k) m) (post w0 inp outp)"
  unfolding triple_def expr_stmt_def
proof (intro allI impI)
  fix s :: "'a frame"
  assume a: "reached w0 (expected_calls inp outp) k m s"
  from engine_expr_reached [OF a assms, where S = S]
  show "case case engine_expr S c s of (Inl e, s') \<Rightarrow> (Raise e, s') | (Inr x, s') \<Rightarrow> (Next, s') of
          (Next, s') \<Rightarrow> reached w0 (expected_calls inp outp) (Suc k) m s'
        | (Return v, s') \<Rightarrow> post w0 inp outp (Return v) s'
        | (Raise e, s') \<Rightarrow> post w0 inp outp (Raise e) s'"
    by (cases "engine_expr S c s"; cases "fst (engine_expr S c s)") auto
qed

lemma triple_getsize:
  assumes "k < length (expected_calls inp outp)"
    and "expected_calls inp outp ! k = Os_path_getsize p"
    and "\<And>n s. reached w0 (expected_calls inp outp) (Suc k) m s
           \<Longrightarrow> reached w0 (expected_calls inp outp) (Suc k) m (store n s)"
  shows "triple (reached w0 (expected_calls inp outp) k m) (assign (getsize_expr S p) store)
           (reached w0 (expected_calls inp outp) (Suc k) m) (post w0 inp outp)"
proof (rule triple_assign)
  fix s :: "'a frame"
  assume a: "reached w0 (expected_calls inp outp) k m s"
  from getsize_expr_reached [OF a assms(1,2), where S = S] assms(3)
  show "case getsize_expr S p s of
          (Inl e, s') \<Rightarrow> post w0 inp outp (Raise e) s'
        | (Inr v, s') \<Rightarrow> reached w0 (expected_calls inp outp) (Suc k) m (store v s')"
    by (cases "getsize_expr S p s"; cases "fst (getsize_expr S p s)") auto
qed

lemma stats_expr_reached:
  assumes a: "reached w0 (expected_calls inp outp) k m s"
    and len: "Suc (Suc (Suc k)) < length (expected_calls inp outp)"
    and c0: "expected_calls inp outp ! k = Pymeshlab Current_mesh"
    and c1: "expected_calls inp outp ! Suc k = Pymeshlab Vertex_number"
    and c2: "expected_calls inp outp ! Suc (Suc k) = Pymeshlab Current_mesh"
    and c3: "expected_calls inp outp ! Suc (Suc (Suc k)) = Pymeshlab Face_number"
  shows "case stats_expr S s of
           (Inl e, s') \<Rightarrow> post w0 inp outp (Raise e) s'
         | (Inr st, s') \<Rightarrow> reached w0 (expected_calls inp outp) (Suc (Suc (Suc (Suc k)))) m s'"
proof -
  obtain r1 s1 where e1: "engine_expr S Current_mesh s = (r1, s1)" by force
  obtain r2 s2 where e2: "engine_expr S Vertex_number s1 = (r2, s2)" by force
  obtain r3 s3 where e3: "engine_expr S Current_mesh s2 = (r3, s3)" by force
  obtain r4 s4 where e4: "engine_expr S Face_number s3 = (r4, s4)" by force
  from len have l0: "k < length (expected_calls inp outp)"
    and l1: "Suc k < length (expected_calls inp outp)"
    and l2: "Suc (Suc k) < length (expected_calls inp outp)" by simp_all
  show ?thesis
  proof (cases r1)
    case (Inl e)
    with engine_expr_reached [OF a l0 c0, where S = S] e1 show ?thesis
      by (simp add: stats_expr_def)
  next
    case i1: (Inr n1)
    with engine_expr_reached [OF a l0 c0, where S = S] e1
    have a1: "reached w0 (expected_calls inp outp) (Suc k) m s1" by simp
    show ?thesis
    proof (cases r2)
      case (Inl e)
      with engine_expr_reached [OF a1 l1 c1, where S = S] e1 e2 i1 show ?thesis
        by (simp add: stats_expr_def)
    next
      case i2: (Inr n2)
      with engine_expr_reached [OF a1 l1 c1, where S = S] e2
      have a2: "reached w0 (expected_calls inp outp) (Suc (Suc k)) m s2" by simp
      show ?thesis
      proof (cases r3)
        case (Inl e)
        with engine_expr_reached [OF a2 l2 c2, where S = S] e1 e2 e3 i1 i2 show ?thesis
          by (simp add: stats_expr_def)
      next
        case i3: (Inr n3)
        with engine_expr_reached [OF a2 l2 c2, where S = S] e3
        have a3: "reached w0 (expected_calls inp outp) (Suc (Suc (Suc k))) m s3" by simp
        show ?thesis
        proof (cases r4)
          case (Inl e)
          with engine_expr_reached [OF a3 len c3, where S = S] e1 e2 e3 e4 i1 i2 i3
          show ?thesis by (simp add: stats_expr_def)
        next
          case (Inr n4)
          with engine_expr_reached [OF a3 len c3, where S = S] e1 e2 e3 e4 i1 i2 i3
          show ?thesis by (simp add: stats_expr_def)
        qed
      qed
    qed
  qed
qed

lemma triple_stats:
  assumes "Suc (Suc (Suc k)) < length (expected_calls inp outp)"
    and "expected_calls inp outp ! k = Pymeshlab Current_mesh"
    and "expected_calls inp outp ! Suc k = Pymeshlab Vertex_number"
    and "expected_calls inp outp ! Suc (Suc k) = Pymeshlab Current_mesh"
    and "expected_calls inp outp ! Suc (Suc (Suc k)) = Pymeshlab Face_number"
    and "\<And>st s. reached w0 (expected_calls inp outp) (Suc (Suc (Suc (Suc k)))) m s
           \<Longrightarrow> reached w0 (expected_calls inp outp) (Suc (Suc (Suc (Suc k)))) m (store st s)"
  shows "triple (reached w0 (expected_calls inp outp) k m) (assign (stats_expr S) store)
           (reached w0 (expected_calls inp outp) (Suc (Suc (Suc (Suc k)))) m) (post w0 inp outp)"
proof (rule triple_assign)
  fix s :: "'a frame"
  assume a: "reached w0 (expected_calls inp outp) k m s"
  from stats_expr_reached [OF a assms(1-5), where S = S] assms(6)
  show "case stats_expr S s of
          (Inl e, s') \<Rightarrow> post w0 inp outp (Raise e) s'
        | (Inr v, s') \<Rightarrow>
            reached w0 (expected_calls inp outp) (Suc (Suc (Suc (Suc k)))) m (store v s')"
    by (cases "stats_expr S s"; cases "fst (stats_expr S s)") auto
qed

lemma print_on_stdout_same [simp]:
  "history (snd (print_on_stdout S line w)) = history w"
  "outside (snd (print_on_stdout S line w)) = outside w"
  by (simp_all add: print_on_stdout_def split: stream_status.split)

lemma print_on_stderr_same [simp]:
  "history (snd (print_on_stderr S line w)) = history w"
  "outside (snd (print_on_stderr S line w)) = outside w"
  by (simp_all add: print_on_stderr_def split: stream_status.split)

lemma print_stderr_effect:
  assumes "print_stderr S msg s = (out, s')"
  shows "(out = Next \<or> (\<exists>e. out = Raise e))
       \<and> history (world s') = history (world s) \<and> repair_steps s' = repair_steps s"
proof -
  obtain r w' where p: "print_on_stderr S (msg s) (world s) = (r, w')" by force
  with print_on_stderr_same(1) [of S "msg s" "world s"] have "history w' = history (world s)"
    by simp
  with p assms show ?thesis
    by (cases r) (auto simp: print_stderr_def)
qed

lemma triple_print:
  assumes "k < length (expected_calls inp outp)"
  shows "triple (reached w0 (expected_calls inp outp) k m) (if_flag verbose (print_stderr S msg))
           (reached w0 (expected_calls inp outp) k m) (post w0 inp outp)"
  unfolding triple_def
proof (intro allI impI)
  fix s :: "'a frame"
  assume a: "reached w0 (expected_calls inp outp) k m s"
  obtain out s' where p: "print_stderr S msg s = (out, s')" by force
  from print_stderr_effect [OF p] a
  have r: "reached w0 (expected_calls inp outp) k m s'"
    and o: "out = Next \<or> (\<exists>e. out = Raise e)"
    by (simp_all add: reached_def)
  from r assms have "\<And>e. post w0 inp outp (Raise e) s'"
    by (auto simp: post_def reached_def)
  with a p r o
  show "case if_flag verbose (print_stderr S msg) s of
          (Next, s') \<Rightarrow> reached w0 (expected_calls inp outp) k m s'
        | (Return v, s') \<Rightarrow> post w0 inp outp (Return v) s'
        | (Raise e, s') \<Rightarrow> post w0 inp outp (Raise e) s'"
    by (cases verbose) (auto simp: if_flag_def)
qed

lemma triple_reset_steps:
  "triple (reached w0 cs k 0) (assign (\<lambda>s. (Inr [], s)) (\<lambda>xs s. s\<lparr>repair_steps := xs\<rparr>))
     (reached w0 cs k 0) X"
  by (simp add: triple_def assign_def reached_def)

lemma triple_append_step:
  assumes "m < length step_names" and "step_names ! m = name"
  shows "triple (reached w0 cs k m) (append_step name) (reached w0 cs k (Suc m)) X"
  using assms by (simp add: triple_def append_step_def reached_def take_Suc_conv_app_nth)

lemma triple_exists:
  "triple (reached w0 (expected_calls inp outp) 0 0)
     (if_not (exists_expr S inp) (return_value (\<lambda>s. input_not_found inp)))
     (reached w0 (expected_calls inp outp) (Suc 0) 0) (post w0 inp outp)"
  by (simp add: triple_def if_not_def exists_expr_def return_value_def reached_def post_def
      log_event_def ok_def expected_calls_def)

lemma triple_return_success:
  assumes "k = length (expected_calls inp outp)" and "m = length step_names"
  shows "triple (reached w0 (expected_calls inp outp) k m) (return_value (success_dict outp)) Q
     (post w0 inp outp)"
  using assms by (simp add: triple_def return_value_def reached_def post_def)

lemmas call_list_defs = expected_calls_def mesh_stats_calls_def repair_step_calls_def step_names_def

lemma repair_stl_try_triple:
  "triple (reached w0 (expected_calls inp outp) 0 0) (repair_stl_try S inp outp verbose)
     (\<lambda>s. False) (post w0 inp outp)"
  unfolding repair_stl_try_def
  apply (rule triple_seq_Cons, rule triple_exists)
  apply (rule triple_seq_Cons, (rule triple_getsize; simp add: call_list_defs reached_def))
  apply (rule triple_seq_Cons, (rule triple_print; simp add: call_list_defs))
  apply (rule triple_seq_Cons, (rule triple_call; simp add: call_list_defs))
  apply (rule triple_seq_Cons, (rule triple_call; simp add: call_list_defs))
  apply (rule triple_seq_Cons, (rule triple_stats; simp add: call_list_defs reached_def))
  apply (rule triple_seq_Cons, (rule triple_print; simp add: call_list_defs))
  apply (rule triple_seq_Cons, rule triple_reset_steps)
  apply (rule triple_seq_Cons, (rule triple_print; simp add: call_list_defs),
         rule triple_seq_Cons, (rule triple_call; simp add: call_list_defs),
         rule triple_seq_Cons, (rule triple_append_step; simp add: call_list_defs))+
  apply (rule triple_seq_Cons, (rule triple_stats; simp add: call_list_defs reached_def))
  apply (rule triple_seq_Cons, (rule triple_print; simp add: call_list_defs))
  apply (rule triple_seq_Cons, (rule triple_print; simp add: call_list_defs))
  apply (rule triple_seq_Cons, (rule triple_call; simp add: call_list_defs))
  apply (rule triple_seq_Cons, (rule triple_getsize; simp add: call_list_defs reached_def))
  apply (rule triple_seq_Cons, (rule triple_return_success; simp add: call_list_defs))
  apply (rule triple_seq_Nil, simp)
  done


lemma tripleD:
  "triple P c Q X \<Longrightarrow> P s \<Longrightarrow>
     (case c s of (Next, s') \<Rightarrow> Q s' | (Return v, s') \<Rightarrow> X (Return v) s'
                | (Raise e, s') \<Rightarrow> X (Raise e) s')"
  by (simp add: triple_def)

lemma reached_enter: "reached w cs 0 0 (enter w)"
  by (simp add: reached_def enter_def)

text \<open>
  Every run ends in one of four ways: the input is missing and only its existence
  has been asked; the complete sequence of calls has been made and none has raised;
  one call has raised, and it is the last one made; or a \<^verbatim>\<open>print\<close> has raised
  between two calls, before the sequence was complete. In the last two the handler
  has turned the exception into a dictionary when it is an \<^verbatim>\<open>Exception\<close>.
\<close>

lemma repair_stl_outcome:
  fixes w :: "'x world"
  assumes run: "repair_stl S inp outp verbose w = (r, w')"
  shows "(r = Inr (input_not_found inp) \<and> history w' = history w @ [ok (Os_path_exists inp)])
     \<or> (\<exists>s :: 'x frame. r = Inr (success_dict outp s) \<and> repair_steps s = step_names
            \<and> history w' = history w @ map ok (expected_calls inp outp))
     \<or> (\<exists>e k. k < length (expected_calls inp outp)
            \<and> history w' = history w @ map ok (take k (expected_calls inp outp))
                              @ [failed (expected_calls inp outp ! k) e]
            \<and> r = (if isinstance e ''Exception'' then Inr (exception_dict e) else Inl e))
     \<or> (\<exists>e k. k < length (expected_calls inp outp)
            \<and> history w' = history w @ map ok (take k (expected_calls inp outp))
            \<and> r = (if isinstance e ''Exception'' then Inr (exception_dict e) else Inl e))"
proof -
  obtain out s where body: "repair_stl_try S inp outp verbose (enter w) = (out, s)"
    by force
  have "case repair_stl_try S inp outp verbose (enter w) of
          (Next, s') \<Rightarrow> False
        | (Return v, s') \<Rightarrow> post w inp outp (Return v) s'
        | (Raise e, s') \<Rightarrow> post w inp outp (Raise e) s'"
    by (rule tripleD [OF repair_stl_try_triple reached_enter])
  with body have p: "out \<noteq> Next \<and> post w inp outp out s"
    by (cases out) simp_all
  show ?thesis
  proof (cases out)
    case Next
    with p show ?thesis by simp
  next
    case (Return v)
    with body run have r: "r = Inr v" and w': "w' = world s"
      by (simp_all add: repair_stl_def repair_stl_body_def try_except_Exception_def)
    from p Return have
      d: "(v = input_not_found inp
                \<and> history (world s) = history w @ [ok (Os_path_exists inp)])
              \<or> (v = success_dict outp s \<and> repair_steps s = step_names
                \<and> history (world s) = history w @ map ok (expected_calls inp outp))"
      by (simp add: post_def)
    from d show ?thesis
    proof
      assume "v = input_not_found inp
                \<and> history (world s) = history w @ [ok (Os_path_exists inp)]"
      with r w' show ?thesis by simp
    next
      assume "v = success_dict outp s \<and> repair_steps s = step_names
                \<and> history (world s) = history w @ map ok (expected_calls inp outp)"
      with r w' have "\<exists>s :: 'x frame. r = Inr (success_dict outp s) \<and> repair_steps s = step_names
            \<and> history w' = history w @ map ok (expected_calls inp outp)"
        by blast
      then show ?thesis by blast
    qed
  next
    case (Raise e)
    with body run have r: "r = (if isinstance e ''Exception'' then Inr (exception_dict e) else Inl e)"
      and w': "w' = world s"
      by (auto simp: repair_stl_def repair_stl_body_def try_except_Exception_def return_value_def
            split: if_splits)
    from p Raise have
      d: "(\<exists>k < length (expected_calls inp outp).
              history (world s) =
                history w @ map ok (take k (expected_calls inp outp))
                  @ [failed (expected_calls inp outp ! k) e])
          \<or> (\<exists>k < length (expected_calls inp outp).
              history (world s) =
                history w @ map ok (take k (expected_calls inp outp)))"
      by (simp add: post_def)
    from d show ?thesis
    proof
      assume "\<exists>k < length (expected_calls inp outp).
              history (world s) =
                history w @ map ok (take k (expected_calls inp outp))
                  @ [failed (expected_calls inp outp ! k) e]"
      with r w' have "\<exists>e k. k < length (expected_calls inp outp)
            \<and> history w' = history w @ map ok (take k (expected_calls inp outp))
                              @ [failed (expected_calls inp outp ! k) e]
            \<and> r = (if isinstance e ''Exception'' then Inr (exception_dict e) else Inl e)"
        by blast
      then show ?thesis by blast
    next
      assume "\<exists>k < length (expected_calls inp outp).
              history (world s) =
                history w @ map ok (take k (expected_calls inp outp))"
      with r w' have "\<exists>e k. k < length (expected_calls inp outp)
            \<and> history w' = history w @ map ok (take k (expected_calls inp outp))
            \<and> r = (if isinstance e ''Exception'' then Inr (exception_dict e) else Inl e)"
        by blast
      then show ?thesis by blast
    qed
  qed
qed

section \<open>The runs on the small system\<close>

lemmas stmt_defs = assign_def expr_stmt_def if_not_def if_flag_def return_value_def
  print_stderr_def print_on_stderr_def print_on_stdout_def append_step_def exists_expr_def getsize_expr_def engine_expr_def
  stats_expr_def log_event_def set_outside_def

lemmas run_defs = repair_stl_def repair_stl_body_def try_except_Exception_def
  repair_stl_try_def stmt_defs fake_system_def fake_world_def enter_def on_current_def
  success_dict_def stats_dict_def exception_dict_def input_not_found_def isinstance_def
  pymeshlab_exception_def ok_def failed_def expected_calls_def mesh_stats_calls_def
  repair_step_calls_def

lemma fake_run_cube:
  "repair_stl fake_system ''cube.stl'' ''out.stl'' False fake_world =
     (Inr cube_result, cube_world)"
  by (simp add: run_defs cube_result_def cube_world_def step_names_def)

lemma fake_run_notes:
  "repair_stl fake_system ''notes.txt'' ''out.stl'' False fake_world =
     (Inr (PDict [(''success'', PBool False),
                  (''error'', PStr ''Unknown format for load: notes.txt''),
                  (''errorType'', PStr ''PyMeshLabException'')]),
      fake_world
        \<lparr>history :=
           [ok (Os_path_exists ''notes.txt''), ok (Os_path_getsize ''notes.txt''),
            ok (Pymeshlab MeshSet),
            failed (Pymeshlab (Load_new_mesh ''notes.txt''))
              (pymeshlab_exception ''Unknown format for load: notes.txt'')]\<rparr>)"
  by (simp add: run_defs)

lemma fake_run_interrupted:
  "repair_stl interrupted_system ''cube.stl'' ''out.stl'' False fake_world =
     (Inl keyboard_interrupt,
      fake_world
        \<lparr>history :=
           [ok (Os_path_exists ''cube.stl''), ok (Os_path_getsize ''cube.stl''),
            failed (Pymeshlab MeshSet) keyboard_interrupt]\<rparr>)"
  by (simp add: run_defs interrupted_system_def keyboard_interrupt_def)


section \<open>The verbose flag\<close>


lemma mute_update [simp]: "mute (s\<lparr>world := (world s)\<lparr>stderr := e\<rparr>\<rparr>) = mute s"
  by (simp add: mute_def)







lemma world_update_twice [simp]:
  "s\<lparr>world := (world s)\<lparr>stderr := e\<rparr>\<rparr>\<lparr>world := w\<rparr> = s\<lparr>world := w\<rparr>"
  by simp








section \<open>What the statements leave alone\<close>

















section \<open>The ways a run can end\<close>

lemma seq_Return: "c s = (Return v, s') \<Longrightarrow> seq (c # cs) s = (Return v, s')"
  by simp

lemma repair_stl_missing_input:
  assumes "\<not> os_path_exists S inp (outside w)"
  shows "repair_stl S inp outp verbose w =
           (Inr (input_not_found inp), w\<lparr>history := history w @ [ok (Os_path_exists inp)]\<rparr>)"
proof -
  have "if_not (exists_expr S inp) (return_value (\<lambda>s. input_not_found inp)) (enter w) =
          (Return (input_not_found inp), log_event (Os_path_exists inp) None (enter w))"
    using assms by (simp add: if_not_def exists_expr_def return_value_def enter_def log_event_def)
  then have "repair_stl_try S inp outp verbose (enter w) =
          (Return (input_not_found inp), log_event (Os_path_exists inp) None (enter w))"
    unfolding repair_stl_try_def by (rule seq_Return)
  then show ?thesis
    by (simp add: repair_stl_def repair_stl_body_def try_except_Exception_def log_event_def
        enter_def ok_def)
qed

lemma new_events_append [simp]: "history w' = history w @ evs \<Longrightarrow> new_events w w' = evs"
  by (simp add: new_events_def)

lemma repair_stl_cases [consumes 1, case_names missing complete raised print_raised]:
  fixes w :: "'x world"
  assumes "repair_stl S inp outp verbose w = (r, w')"
  obtains "r = Inr (input_not_found inp)" and "new_events w w' = [ok (Os_path_exists inp)]"
  | s :: "'x frame" where "r = Inr (success_dict outp s)" and "repair_steps s = step_names"
      and "new_events w w' = map ok (expected_calls inp outp)"
  | e k where "k < length (expected_calls inp outp)"
      and "new_events w w' = map ok (take k (expected_calls inp outp))
             @ [failed (expected_calls inp outp ! k) e]"
      and "r = (if isinstance e ''Exception'' then Inr (exception_dict e) else Inl e)"
  | e k where "k < length (expected_calls inp outp)"
      and "new_events w w' = map ok (take k (expected_calls inp outp))"
      and "r = (if isinstance e ''Exception'' then Inr (exception_dict e) else Inl e)"
  using repair_stl_outcome [OF assms] by (elim conjE disjE exE) simp_all

lemma is_success_simps [simp]:
  "\<not> is_success (input_not_found inp)" "is_failure (input_not_found inp)"
  "\<not> is_success (exception_dict e)" "is_failure (exception_dict e)"
  "is_success (success_dict outp s)" "\<not> is_failure (success_dict outp s)"
  by (simp_all add: is_success_def is_failure_def input_not_found_def exception_dict_def
      success_dict_def)

lemma ok_not_raised [simp]: "ev_raised (ok c) = None" "ev_call (ok c) = c"
  "ev_raised (failed c e) = Some e" "ev_call (failed c e) = c"
  by (simp_all add: ok_def failed_def)





lemma ev_call_map_ok [simp]: "map ev_call (map ok cs) = cs"
  by (induction cs) simp_all

lemma ev_call_comp_ok [simp]: "map (ev_call \<circ> ok) cs = cs"
  by (induction cs) simp_all

lemma raised_in_map_ok: "ev \<in> set (map ok cs) \<Longrightarrow> ev_raised ev = None"
  by auto


lemma success_run:
  fixes w :: "'x world"
  assumes "repair_stl S inp outp verbose w = (Inr d, w')" and "is_success d"
  shows "\<exists>s :: 'x frame. d = success_dict outp s \<and> repair_steps s = step_names
           \<and> new_events w w' = map ok (expected_calls inp outp)"
  using assms(1)
proof (cases rule: repair_stl_cases)
  case missing
  with assms(2) show ?thesis by simp
next
  case (complete s)
  then show ?thesis by auto
next
  case (raised e k)
  with assms(2) show ?thesis by (auto split: if_splits)
next
  case (print_raised e k)
  with assms(2) show ?thesis by (auto split: if_splits)
qed

lemma raised_run:
  assumes "repair_stl S inp outp verbose w = (r, w')"
    and "ev \<in> set (new_events w w')" and "ev_raised ev = Some e"
  shows "\<exists>k < length (expected_calls inp outp).
           new_events w w' = map ok (take k (expected_calls inp outp))
             @ [failed (expected_calls inp outp ! k) e]
           \<and> ev = failed (expected_calls inp outp ! k) e
           \<and> r = (if isinstance e ''Exception'' then Inr (exception_dict e) else Inl e)"
  using assms(1)
proof (cases rule: repair_stl_cases)
  case missing
  with assms(2,3) show ?thesis by simp
next
  case (complete s)
  with assms(2) have "ev \<in> set (map ok (expected_calls inp outp))" by simp
  then have "ev_raised ev = None" by (rule raised_in_map_ok)
  with assms(3) show ?thesis by simp
next
  case (raised e' k)
  from raised(2) assms(2) have "ev \<in> set (map ok (take k (expected_calls inp outp)))
      \<or> ev = failed (expected_calls inp outp ! k) e'"
    by auto
  with assms(3) have "ev = failed (expected_calls inp outp ! k) e'"
    using raised_in_map_ok by fastforce
  with assms(3) have "e' = e" by simp
  with raised \<open>ev = failed (expected_calls inp outp ! k) e'\<close> show ?thesis by blast
next
  case (print_raised e' k)
  with assms(2) have "ev \<in> set (map ok (take k (expected_calls inp outp)))" by simp
  then have "ev_raised ev = None" by (rule raised_in_map_ok)
  with assms(3) show ?thesis by simp
qed

lemma calls_prefix:
  assumes "repair_stl S inp outp verbose w = (r, w')"
  shows "prefix (map ev_call (new_events w w')) (expected_calls inp outp)"
  using assms
proof (cases rule: repair_stl_cases)
  case missing
  then show ?thesis by (simp add: expected_calls_def)
next
  case (complete s)
  then show ?thesis by simp
next
  case (raised e k)
  then have "map ev_call (new_events w w') = take (Suc k) (expected_calls inp outp)"
    by (simp add: take_Suc_conv_app_nth)
  then show ?thesis by (simp add: take_is_prefix)
next
  case (print_raised e k)
  then show ?thesis by (simp add: take_is_prefix)
qed













section \<open>The claims\<close>

text \<open>
  C1, as the specification states it: a call of \<^verbatim>\<open>repair\<close> on a missing input gives
  a Failure of kind \<^verbatim>\<open>InputNotFound\<close>. The dictionary the code returns for
  \<^verbatim>\<open>repair("/nonexistent.stl", "out.stl", false)\<close> has the two entries \<^verbatim>\<open>success\<close>
  and \<^verbatim>\<open>error\<close> and no kind.
\<close>

theorem missing_input_kind_counterexample:
  "fst (repair_stl fake_system ''/nonexistent.stl'' ''out.stl'' False fake_world) =
     Inr (PDict [(''success'', PBool False),
                 (''error'', PStr ''Input file not found: /nonexistent.stl'')])
   \<and> result_kind (fst (repair_stl fake_system ''/nonexistent.stl'' ''out.stl'' False fake_world))
       \<noteq> Some ''InputNotFound''"
proof -
  have "\<not> os_path_exists fake_system ''/nonexistent.stl'' (outside fake_world)"
    by (simp add: fake_system_def fake_world_def)
  from repair_stl_missing_input [OF this, of "''out.stl''" False]
  show ?thesis
    by (simp add: input_not_found_def result_kind_def spec_error_kind_def key_error_def)
qed

text \<open>
  C1, amended: when \<^verbatim>\<open>os.path.exists(input_path)\<close> is false, \<^verbatim>\<open>repair_stl\<close> returns
  the dictionary with \<^verbatim>\<open>success\<close> false and the message
  \<^verbatim>\<open>Input file not found: <input_path>\<close>, which carries no kind. The existence check
  is the only call made: the engine is never reached, nothing is printed, and the
  world outside the script is left as it was, so no file appears at the output path.
\<close>

theorem missing_input_fails_immediately:
  assumes "\<not> os_path_exists S input_path (outside w)"
  shows "repair_stl S input_path output_path verbose w =
           (Inr (PDict [(''success'', PBool False),
                        (''error'', PStr (''Input file not found: '' @ input_path))]),
            w\<lparr>history := history w @ [ok (Os_path_exists input_path)]\<rparr>)
         \<and> is_failure (PDict [(''success'', PBool False),
                        (''error'', PStr (''Input file not found: '' @ input_path))])
         \<and> result_kind (fst (repair_stl S input_path output_path verbose w)) = None
         \<and> new_events w (snd (repair_stl S input_path output_path verbose w)) =
             [ok (Os_path_exists input_path)]
         \<and> outside (snd (repair_stl S input_path output_path verbose w)) = outside w
         \<and> os_path_exists S output_path
             (outside (snd (repair_stl S input_path output_path verbose w))) =
             os_path_exists S output_path (outside w)"
  using repair_stl_missing_input [OF assms, of output_path verbose]
  by (simp add: input_not_found_def result_kind_def spec_error_kind_def key_error_def
      is_failure_def)

theorem missing_input_fails_immediately_witness:
  "\<not> os_path_exists fake_system ''/nonexistent.stl'' (outside fake_world)
   \<and> repair_stl fake_system ''/nonexistent.stl'' ''out.stl'' True fake_world =
       (Inr (PDict [(''success'', PBool False),
                    (''error'', PStr ''Input file not found: /nonexistent.stl'')]),
        fake_world\<lparr>history := [ok (Os_path_exists ''/nonexistent.stl'')]\<rparr>)
   \<and> \<not> os_path_exists fake_system ''out.stl''
         (outside (snd (repair_stl fake_system ''/nonexistent.stl'' ''out.stl'' True fake_world)))"
proof -
  have h: "\<not> os_path_exists fake_system ''/nonexistent.stl'' (outside fake_world)"
    by (simp add: fake_system_def fake_world_def)
  from missing_input_fails_immediately [OF h, of "''out.stl''" True] h
  show ?thesis
    by (simp add: fake_system_def fake_world_def)
qed


text \<open>
  C2: in every run, whenever \<^verbatim>\<open>close_holes\<close> is called its maximal hole size is 30,
  whenever \<^verbatim>\<open>repair_non_manifold_vertices\<close> is called its displacement ratio is 0.0,
  and whenever \<^verbatim>\<open>snap_borders\<close> is called its threshold is 0.01, that is 1 percent
  as a fraction; a run that ends in a Success has made each of the three calls.
\<close>

theorem repair_steps_use_fixed_constants:
  assumes "repair_stl S input_path output_path verbose w = (r, w')"
  shows "(\<forall>ev \<in> set (new_events w w').
            (\<forall>n. ev_call ev = Pymeshlab (Meshing_close_holes n) \<longrightarrow> n = 30)
          \<and> (\<forall>d. ev_call ev = Pymeshlab (Meshing_repair_non_manifold_vertices d) \<longrightarrow> d = 0)
          \<and> (\<forall>t. ev_call ev = Pymeshlab (Meshing_snap_mismatched_borders t) \<longrightarrow> t = 1 / 100))
       \<and> (\<forall>d. r = Inr d \<and> is_success d \<longrightarrow>
            ok (Pymeshlab (Meshing_close_holes 30)) \<in> set (new_events w w')
          \<and> ok (Pymeshlab (Meshing_repair_non_manifold_vertices 0)) \<in> set (new_events w w')
          \<and> ok (Pymeshlab (Meshing_snap_mismatched_borders (1 / 100)))
               \<in> set (new_events w w'))"
proof (intro conjI ballI allI impI)
  fix ev assume "ev \<in> set (new_events w w')"
  then have "ev_call ev \<in> set (map ev_call (new_events w w'))" by simp
  with calls_prefix [OF assms] have m: "ev_call ev \<in> set (expected_calls input_path output_path)"
    using set_mono_prefix by blast
  { fix n assume "ev_call ev = Pymeshlab (Meshing_close_holes n)"
    with m show "n = 30"
      by (auto simp: expected_calls_def mesh_stats_calls_def repair_step_calls_def) }
  { fix d assume "ev_call ev = Pymeshlab (Meshing_repair_non_manifold_vertices d)"
    with m show "d = 0"
      by (auto simp: expected_calls_def mesh_stats_calls_def repair_step_calls_def) }
  { fix t assume "ev_call ev = Pymeshlab (Meshing_snap_mismatched_borders t)"
    with m show "t = 1 / 100"
      by (auto simp: expected_calls_def mesh_stats_calls_def repair_step_calls_def) }
next
  fix d assume "r = Inr d \<and> is_success d"
  with success_run [of S input_path output_path verbose w d w'] assms
  have e: "new_events w w' = map ok (expected_calls input_path output_path)" by auto
  show "ok (Pymeshlab (Meshing_close_holes 30)) \<in> set (new_events w w')"
    "ok (Pymeshlab (Meshing_repair_non_manifold_vertices 0)) \<in> set (new_events w w')"
    "ok (Pymeshlab (Meshing_snap_mismatched_borders (1 / 100))) \<in> set (new_events w w')"
    unfolding e by (simp_all add: expected_calls_def mesh_stats_calls_def repair_step_calls_def)
qed

theorem repair_steps_use_fixed_constants_witness:
  "repair_stl fake_system ''cube.stl'' ''out.stl'' False fake_world = (Inr cube_result, cube_world)
   \<and> is_success cube_result
   \<and> ok (Pymeshlab (Meshing_close_holes 30)) \<in> set (new_events fake_world cube_world)
   \<and> ok (Pymeshlab (Meshing_repair_non_manifold_vertices 0))
        \<in> set (new_events fake_world cube_world)
   \<and> ok (Pymeshlab (Meshing_snap_mismatched_borders (1 / 100)))
        \<in> set (new_events fake_world cube_world)
   \<and> ok (Pymeshlab (Meshing_close_holes 31)) \<notin> set (new_events fake_world cube_world)"
proof -
  have s: "is_success cube_result"
    by (simp add: is_success_def cube_result_def)
  from repair_steps_use_fixed_constants [OF fake_run_cube] s fake_run_cube
  show ?thesis by (auto simp: ok_def)
qed

text \<open>
  C3: a run that ends in a Success has made exactly the calls of the fixed sequence,
  none of which raised; among them the eight repair steps, each once, in the order
  \<^verbatim>\<open>remove_duplicate_faces\<close>, \<^verbatim>\<open>remove_duplicate_vertices\<close>,
  \<^verbatim>\<open>remove_unreferenced_vertices\<close>, \<^verbatim>\<open>repair_non_manifold_edges\<close>,
  \<^verbatim>\<open>repair_non_manifold_vertices\<close>, \<^verbatim>\<open>close_holes\<close>, \<^verbatim>\<open>reorient_faces\<close>,
  \<^verbatim>\<open>snap_borders\<close>; and the \<^verbatim>\<open>repairSteps\<close> entry of the result is the list of these
  eight names in this order.
\<close>

theorem repair_steps_run_in_fixed_order:
  assumes "repair_stl S input_path output_path verbose w = (Inr d, w')"
    and "is_success d"
  shows "new_events w w' = map ok (expected_calls input_path output_path)
       \<and> filter is_repair_step (map ev_call (new_events w w')) =
           [Pymeshlab Meshing_remove_duplicate_faces,
            Pymeshlab Meshing_remove_duplicate_vertices,
            Pymeshlab Meshing_remove_unreferenced_vertices,
            Pymeshlab (Meshing_repair_non_manifold_edges 0),
            Pymeshlab (Meshing_repair_non_manifold_vertices 0),
            Pymeshlab (Meshing_close_holes 30),
            Pymeshlab Meshing_re_orient_faces_coherently,
            Pymeshlab (Meshing_snap_mismatched_borders (1 / 100))]
       \<and> getitem d ''repairSteps'' =
           Inr (PList [PStr ''remove_duplicate_faces'', PStr ''remove_duplicate_vertices'',
                       PStr ''remove_unreferenced_vertices'', PStr ''repair_non_manifold_edges'',
                       PStr ''repair_non_manifold_vertices'', PStr ''close_holes'',
                       PStr ''reorient_faces'', PStr ''snap_borders''])"
proof -
  from success_run [OF assms] obtain s :: "'a frame"
    where d: "d = success_dict output_path s" and st: "repair_steps s = step_names"
      and e: "new_events w w' = map ok (expected_calls input_path output_path)"
    by blast
  have "filter is_repair_step (expected_calls input_path output_path) =
          map Pymeshlab repair_step_calls"
    by (simp add: is_repair_step_def expected_calls_def mesh_stats_calls_def
        repair_step_calls_def)
  with e have "filter is_repair_step (map ev_call (new_events w w')) =
          map Pymeshlab repair_step_calls"
    by simp
  moreover from d st have "getitem d ''repairSteps'' = Inr (PList (map PStr step_names))"
    by (simp add: success_dict_def)
  ultimately show ?thesis
    using e by (simp add: repair_step_calls_def step_names_def)
qed

theorem repair_steps_run_in_fixed_order_witness:
  "repair_stl fake_system ''cube.stl'' ''out.stl'' False fake_world = (Inr cube_result, cube_world)
   \<and> is_success cube_result
   \<and> new_events fake_world cube_world = map ok (expected_calls ''cube.stl'' ''out.stl'')
   \<and> length (filter is_repair_step (map ev_call (new_events fake_world cube_world))) = 8
   \<and> getitem cube_result ''repairSteps'' =
       Inr (PList [PStr ''remove_duplicate_faces'', PStr ''remove_duplicate_vertices'',
                   PStr ''remove_unreferenced_vertices'', PStr ''repair_non_manifold_edges'',
                   PStr ''repair_non_manifold_vertices'', PStr ''close_holes'',
                   PStr ''reorient_faces'', PStr ''snap_borders''])"
proof -
  have s: "is_success cube_result"
    by (simp add: is_success_def cube_result_def)
  from repair_steps_run_in_fixed_order [OF fake_run_cube s]
  have e: "new_events fake_world cube_world = map ok (expected_calls ''cube.stl'' ''out.stl'')"
    and f: "filter is_repair_step (map ev_call (new_events fake_world cube_world)) =
           [Pymeshlab Meshing_remove_duplicate_faces,
            Pymeshlab Meshing_remove_duplicate_vertices,
            Pymeshlab Meshing_remove_unreferenced_vertices,
            Pymeshlab (Meshing_repair_non_manifold_edges 0),
            Pymeshlab (Meshing_repair_non_manifold_vertices 0),
            Pymeshlab (Meshing_close_holes 30),
            Pymeshlab Meshing_re_orient_faces_coherently,
            Pymeshlab (Meshing_snap_mismatched_borders (1 / 100))]"
    and g: "getitem cube_result ''repairSteps'' =
       Inr (PList [PStr ''remove_duplicate_faces'', PStr ''remove_duplicate_vertices'',
                   PStr ''remove_unreferenced_vertices'', PStr ''repair_non_manifold_edges'',
                   PStr ''repair_non_manifold_vertices'', PStr ''close_holes'',
                   PStr ''reorient_faces'', PStr ''snap_borders''])"
    by blast+
  have l: "length (filter is_repair_step (map ev_call (new_events fake_world cube_world))) = 8"
    unfolding f by simp
  from fake_run_cube s e l g show ?thesis by blast
qed

text \<open>
  C4: in every Success result \<^verbatim>\<open>sizeDifference\<close> is \<^verbatim>\<open>repairedSize\<close> minus
  \<^verbatim>\<open>originalSize\<close>, \<^verbatim>\<open>verticesChanged\<close> is the final vertex count minus the initial
  one and \<^verbatim>\<open>facesChanged\<close> is the final face count minus the initial one, as integers
  of unbounded size.
\<close>

theorem success_stats_arithmetic:
  assumes "repair_stl S input_path output_path verbose w = (Inr d, w')"
    and "is_success d"
  shows "\<exists>original repaired v0 f0 v1 f1 :: int.
           getitem d ''originalSize'' = Inr (PInt original)
         \<and> getitem d ''repairedSize'' = Inr (PInt repaired)
         \<and> getitem d ''sizeDifference'' = Inr (PInt (repaired - original))
         \<and> getitem d ''initialStats'' = Inr (PDict [(''vertices'', PInt v0), (''faces'', PInt f0)])
         \<and> getitem d ''finalStats'' = Inr (PDict [(''vertices'', PInt v1), (''faces'', PInt f1)])
         \<and> getitem d ''verticesChanged'' = Inr (PInt (v1 - v0))
         \<and> getitem d ''facesChanged'' = Inr (PInt (f1 - f0))"
proof -
  from success_run [OF assms] obtain s :: "'a frame"
    where d: "d = success_dict output_path s"
    by blast
  have "getitem d ''originalSize'' = Inr (PInt (original_size s))
      \<and> getitem d ''repairedSize'' = Inr (PInt (repaired_size s))
      \<and> getitem d ''sizeDifference'' = Inr (PInt (repaired_size s - original_size s))
      \<and> getitem d ''initialStats'' =
          Inr (PDict [(''vertices'', PInt (vertices (initial_stats s))),
                      (''faces'', PInt (faces (initial_stats s)))])
      \<and> getitem d ''finalStats'' =
          Inr (PDict [(''vertices'', PInt (vertices (final_stats s))),
                      (''faces'', PInt (faces (final_stats s)))])
      \<and> getitem d ''verticesChanged'' =
          Inr (PInt (vertices (final_stats s) - vertices (initial_stats s)))
      \<and> getitem d ''facesChanged'' =
          Inr (PInt (faces (final_stats s) - faces (initial_stats s)))"
    unfolding d by (simp add: success_dict_def stats_dict_def)
  then show ?thesis by blast
qed

theorem success_stats_arithmetic_witness:
  "repair_stl fake_system ''cube.stl'' ''out.stl'' False fake_world = (Inr cube_result, cube_world)
   \<and> is_success cube_result
   \<and> getitem cube_result ''originalSize'' = Inr (PInt 684)
   \<and> getitem cube_result ''repairedSize'' = Inr (PInt 784)
   \<and> getitem cube_result ''sizeDifference'' = Inr (PInt (784 - 684))
   \<and> getitem cube_result ''verticesChanged'' = Inr (PInt (8 - 36))
   \<and> getitem cube_result ''facesChanged'' = Inr (PInt (14 - 12))"
proof -
  have s: "is_success cube_result"
    by (simp add: is_success_def cube_result_def)
  have c: "getitem cube_result ''originalSize'' = Inr (PInt 684)"
    "getitem cube_result ''repairedSize'' = Inr (PInt 784)"
    "getitem cube_result ''sizeDifference'' = Inr (PInt (784 - 684))"
    "getitem cube_result ''verticesChanged'' = Inr (PInt (8 - 36))"
    "getitem cube_result ''facesChanged'' = Inr (PInt (14 - 12))"
    by (simp_all add: cube_result_def)
  from success_stats_arithmetic [OF fake_run_cube s]
  have "\<exists>original repaired :: int.
          getitem cube_result ''originalSize'' = Inr (PInt original)
        \<and> getitem cube_result ''repairedSize'' = Inr (PInt repaired)
        \<and> getitem cube_result ''sizeDifference'' = Inr (PInt (repaired - original))"
    by blast
  with c fake_run_cube s show ?thesis by blast
qed

text \<open>
  C5, as the specification states it: \<^verbatim>\<open>repair\<close> never lets a fault reach its caller.
  The handler is \<^verbatim>\<open>except Exception\<close>: when the user interrupts the first call of the
  library, the \<^verbatim>\<open>KeyboardInterrupt\<close> leaves \<^verbatim>\<open>repair_stl\<close>.
\<close>

theorem interrupt_reaches_caller_counterexample:
  "fst (repair_stl interrupted_system ''cube.stl'' ''out.stl'' False fake_world) =
     Inl keyboard_interrupt
   \<and> \<not> isinstance keyboard_interrupt ''Exception''"
  using fake_run_interrupted by (simp add: isinstance_def keyboard_interrupt_def)

text \<open>
  C5, amended: a call that raises is the last call of the run, so a failure at any
  step (the size of the input, the load, a repair step, the statistics, the save, the
  size of the output) aborts everything after it; the calls made are an initial part
  of the fixed sequence. When the exception is an instance of \<^verbatim>\<open>Exception\<close> it is
  caught and \<^verbatim>\<open>repair_stl\<close> returns a Failure dictionary whose \<^verbatim>\<open>error\<close> is the
  message of the exception; no instance of \<^verbatim>\<open>Exception\<close> ever reaches the caller.
  An exception outside \<^verbatim>\<open>Exception\<close> (\<^verbatim>\<open>KeyboardInterrupt\<close>, \<^verbatim>\<open>SystemExit\<close>) is not
  caught and reaches the caller.
\<close>

theorem exceptions_become_failures:
  assumes "repair_stl S input_path output_path verbose w = (r, w')"
  shows "prefix (map ev_call (new_events w w')) (expected_calls input_path output_path)
       \<and> (\<forall>e. r = Inl e \<longrightarrow> \<not> isinstance e ''Exception'')
       \<and> (\<forall>ev e. ev \<in> set (new_events w w') \<and> ev_raised ev = Some e \<longrightarrow>
            ev = last (new_events w w')
          \<and> (\<forall>ev' \<in> set (butlast (new_events w w')). ev_raised ev' = None)
          \<and> (if isinstance e ''Exception''
              then r = Inr (PDict [(''success'', PBool False),
                                   (''error'', PStr (exn_str e)),
                                   (''errorType'', PStr (exn_class e))])
                   \<and> is_failure (PDict [(''success'', PBool False),
                                   (''error'', PStr (exn_str e)),
                                   (''errorType'', PStr (exn_class e))])
              else r = Inl e))"
proof (intro conjI allI impI)
  show "prefix (map ev_call (new_events w w')) (expected_calls input_path output_path)"
    by (rule calls_prefix [OF assms])
next
  fix e assume "r = Inl e"
  with assms show "\<not> isinstance e ''Exception''"
    by (cases rule: repair_stl_cases) (auto split: if_splits)
next
  fix ev e assume "ev \<in> set (new_events w w') \<and> ev_raised ev = Some e"
  with raised_run [OF assms, of ev e] obtain k
    where n: "new_events w w' = map ok (take k (expected_calls input_path output_path))
                @ [failed (expected_calls input_path output_path ! k) e]"
      and ev: "ev = failed (expected_calls input_path output_path ! k) e"
      and r: "r = (if isinstance e ''Exception'' then Inr (exception_dict e) else Inl e)"
    by blast
  from n ev show "ev = last (new_events w w')" by simp
  from n show "\<forall>ev' \<in> set (butlast (new_events w w')). ev_raised ev' = None"
    by (simp add: butlast_append raised_in_map_ok)
  from r show "if isinstance e ''Exception''
      then r = Inr (PDict [(''success'', PBool False), (''error'', PStr (exn_str e)),
                           (''errorType'', PStr (exn_class e))])
           \<and> is_failure (PDict [(''success'', PBool False), (''error'', PStr (exn_str e)),
                           (''errorType'', PStr (exn_class e))])
      else r = Inl e"
    by (simp add: exception_dict_def is_failure_def)
qed

theorem exceptions_become_failures_witness:
  "repair_stl fake_system ''notes.txt'' ''out.stl'' False fake_world =
     (Inr (PDict [(''success'', PBool False),
                  (''error'', PStr ''Unknown format for load: notes.txt''),
                  (''errorType'', PStr ''PyMeshLabException'')]),
      fake_world
        \<lparr>history :=
           [ok (Os_path_exists ''notes.txt''), ok (Os_path_getsize ''notes.txt''),
            ok (Pymeshlab MeshSet),
            failed (Pymeshlab (Load_new_mesh ''notes.txt''))
              (pymeshlab_exception ''Unknown format for load: notes.txt'')]\<rparr>)
   \<and> isinstance (pymeshlab_exception ''Unknown format for load: notes.txt'') ''Exception''
   \<and> prefix [Os_path_exists ''notes.txt'', Os_path_getsize ''notes.txt'', Pymeshlab MeshSet,
              Pymeshlab (Load_new_mesh ''notes.txt'')]
        (expected_calls ''notes.txt'' ''out.stl'')"
proof -
  have i: "isinstance (pymeshlab_exception ''Unknown format for load: notes.txt'') ''Exception''"
    by (simp add: isinstance_def pymeshlab_exception_def)
  from exceptions_become_failures [OF fake_run_notes] i fake_run_notes
  show ?thesis by (simp add: new_events_def fake_world_def)
qed







text \<open>
  C8: a run that ends in a Success has called \<^verbatim>\<open>save_current_mesh\<close> exactly once, on
  the output path, with \<^verbatim>\<open>binary=True\<close> and \<^verbatim>\<open>save_vertex_normal=False\<close>, and the
  call did not raise; the result names the same path.
\<close>

theorem success_saves_binary_without_normals:
  assumes "repair_stl S input_path output_path verbose w = (Inr d, w')"
    and "is_success d"
  shows "filter (\<lambda>ev. is_save (ev_call ev)) (new_events w w') =
           [ok (Pymeshlab (Save_current_mesh output_path True False))]
       \<and> getitem d ''outputPath'' = Inr (PStr output_path)"
proof -
  from success_run [OF assms] obtain s :: "'a frame"
    where d: "d = success_dict output_path s"
      and e: "new_events w w' = map ok (expected_calls input_path output_path)"
    by blast
  have "filter (\<lambda>ev. is_save (ev_call ev)) (map ok (expected_calls input_path output_path)) =
          [ok (Pymeshlab (Save_current_mesh output_path True False))]"
    by (simp add: expected_calls_def mesh_stats_calls_def repair_step_calls_def)
  with d e show ?thesis by (simp add: success_dict_def)
qed

theorem success_saves_binary_without_normals_witness:
  "repair_stl fake_system ''cube.stl'' ''out.stl'' False fake_world = (Inr cube_result, cube_world)
   \<and> is_success cube_result
   \<and> filter (\<lambda>ev. is_save (ev_call ev)) (new_events fake_world cube_world) =
       [ok (Pymeshlab (Save_current_mesh ''out.stl'' True False))]
   \<and> getitem cube_result ''outputPath'' = Inr (PStr ''out.stl'')"
proof -
  have s: "is_success cube_result"
    by (simp add: is_success_def cube_result_def)
  from success_saves_binary_without_normals [OF fake_run_cube s] s fake_run_cube
  show ?thesis by blast
qed



text \<open>
  C10: the Failure returned for a missing input has the entries \<^verbatim>\<open>success\<close> and
  \<^verbatim>\<open>error\<close> only, and asking it for \<^verbatim>\<open>errorType\<close> is a \<^verbatim>\<open>KeyError\<close>; the Failure
  returned by the handler for a caught exception has the third entry \<^verbatim>\<open>errorType\<close>,
  the name of the exception's class. So there is a Failure that carries no
  machine-readable category.
\<close>

theorem error_type_only_for_caught_exceptions:
  "(\<not> os_path_exists S input_path (outside w) \<longrightarrow>
      fst (repair_stl S input_path output_path verbose w) = Inr (input_not_found input_path))
   \<and> dict_keys (input_not_found input_path) = [''success'', ''error'']
   \<and> is_failure (input_not_found input_path)
   \<and> getitem (input_not_found input_path) ''errorType'' = Inl (key_error ''errorType'')
   \<and> spec_error_kind (input_not_found input_path) = None
   \<and> (\<forall>r w' ev. repair_stl S input_path output_path verbose w = (r, w')
        \<and> ev \<in> set (new_events w w') \<and> ev_raised ev = Some e
        \<and> isinstance e ''Exception'' \<longrightarrow> r = Inr (exception_dict e))
   \<and> dict_keys (exception_dict e) = [''success'', ''error'', ''errorType'']
   \<and> is_failure (exception_dict e)
   \<and> getitem (exception_dict e) ''errorType'' = Inr (PStr (exn_class e))
   \<and> spec_error_kind (exception_dict e) = Some (exn_class e)"
proof -
  have a: "\<not> os_path_exists S input_path (outside w) \<longrightarrow>
      fst (repair_stl S input_path output_path verbose w) = Inr (input_not_found input_path)"
    by (simp add: repair_stl_missing_input)
  have b: "\<forall>r w' ev. repair_stl S input_path output_path verbose w = (r, w')
        \<and> ev \<in> set (new_events w w') \<and> ev_raised ev = Some e
        \<and> isinstance e ''Exception'' \<longrightarrow> r = Inr (exception_dict e)"
  proof (intro allI impI)
    fix r w' ev
    assume h: "repair_stl S input_path output_path verbose w = (r, w')
        \<and> ev \<in> set (new_events w w') \<and> ev_raised ev = Some e \<and> isinstance e ''Exception''"
    then have "repair_stl S input_path output_path verbose w = (r, w')"
      and "ev \<in> set (new_events w w')" and "ev_raised ev = Some e" by simp_all
    from raised_run [OF this] h show "r = Inr (exception_dict e)" by auto
  qed
  from a b show ?thesis
    by (simp add: input_not_found_def exception_dict_def is_failure_def spec_error_kind_def)
qed

theorem error_type_only_for_caught_exceptions_witness:
  "\<not> os_path_exists fake_system ''/nonexistent.stl'' (outside fake_world)
   \<and> fst (repair_stl fake_system ''/nonexistent.stl'' ''out.stl'' False fake_world) =
       Inr (PDict [(''success'', PBool False),
                   (''error'', PStr ''Input file not found: /nonexistent.stl'')])
   \<and> isinstance (pymeshlab_exception ''Unknown format for load: notes.txt'') ''Exception''
   \<and> fst (repair_stl fake_system ''notes.txt'' ''out.stl'' False fake_world) =
       Inr (PDict [(''success'', PBool False),
                   (''error'', PStr ''Unknown format for load: notes.txt''),
                   (''errorType'', PStr ''PyMeshLabException'')])"
proof -
  have h: "\<not> os_path_exists fake_system ''/nonexistent.stl'' (outside fake_world)"
    by (simp add: fake_system_def fake_world_def)
  have i: "isinstance (pymeshlab_exception ''Unknown format for load: notes.txt'') ''Exception''"
    by (simp add: isinstance_def pymeshlab_exception_def)
  from error_type_only_for_caught_exceptions
    [of fake_system "''/nonexistent.stl''" fake_world "''out.stl''" False] h
  have "fst (repair_stl fake_system ''/nonexistent.stl'' ''out.stl'' False fake_world) =
          Inr (input_not_found ''/nonexistent.stl'')"
    by blast
  with h i fake_run_notes show ?thesis
    by (simp add: input_not_found_def)
qed

end
